theory Spec2Isabelle
  imports Complex_Main "HOL-Library.Word"
begin

section \<open>The paddy-field sensor unit: one measurement cycle\<close>

text \<open>
  The firmware wakes from deep sleep, runs \<open>setup()\<close> once (initialise the buses and
  the SD card, write the CSV header if the file is missing, read the sensors, append
  one CSV row, choose the next sleep interval) and goes back to deep sleep.  Nothing
  survives in memory between two cycles; only the SD card does.
\<close>

subsection \<open>C floating-point values\<close>

text \<open>
  The globals \<open>airTemp\<close>, \<open>humidity\<close>, \<open>pressure\<close>, \<open>waterTemp\<close> and \<open>waterLevel\<close>
  are C \<open>float\<close>s.  A value is a finite number, a negative zero, an infinity or a
  not-a-number.  Finite values are over-approximated by the reals: every \<open>float\<close> is a
  real, and a statement for all reals holds for all floats.
\<close>

datatype cfloat = Fin real | NegZero | PInf | NInf | NaN

text \<open>
  Comparison of a \<open>float\<close> with a finite \<open>double\<close> constant.  The \<open>float\<close> is
  promoted without rounding, so on finite values the comparison is the comparison of
  the reals; a NaN compares false with everything.
\<close>

fun cf_ge :: "cfloat \<Rightarrow> real \<Rightarrow> bool" where
  "cf_ge (Fin x) c = (x \<ge> c)"
| "cf_ge NegZero c = (0 \<ge> c)"
| "cf_ge PInf c = True"
| "cf_ge NInf c = False"
| "cf_ge NaN c = False"

fun cf_le :: "cfloat \<Rightarrow> real \<Rightarrow> bool" where
  "cf_le (Fin x) c = (x \<le> c)"
| "cf_le NegZero c = (0 \<le> c)"
| "cf_le PInf c = False"
| "cf_le NInf c = True"
| "cf_le NaN c = False"

fun cf_gt :: "cfloat \<Rightarrow> real \<Rightarrow> bool" where
  "cf_gt (Fin x) c = (x > c)"
| "cf_gt NegZero c = (0 > c)"
| "cf_gt PInf c = True"
| "cf_gt NInf c = False"
| "cf_gt NaN c = False"

fun cf_lt :: "cfloat \<Rightarrow> real \<Rightarrow> bool" where
  "cf_lt (Fin x) c = (x < c)"
| "cf_lt NegZero c = (0 < c)"
| "cf_lt PInf c = False"
| "cf_lt NInf c = True"
| "cf_lt NaN c = False"

fun cf_eq :: "cfloat \<Rightarrow> real \<Rightarrow> bool" where
  "cf_eq (Fin x) c = (x = c)"
| "cf_eq NegZero c = (0 = c)"
| "cf_eq PInf c = False"
| "cf_eq NInf c = False"
| "cf_eq NaN c = False"

subsection \<open>Constants of the sketch\<close>

definition INTERVAL_NORMAL :: int where "INTERVAL_NORMAL = 1800"
definition INTERVAL_HIGH_RISK :: int where "INTERVAL_HIGH_RISK = 600"
definition INTERVAL_NIGHT :: int where "INTERVAL_NIGHT = 3600"

definition BLAST_TEMP_MIN :: real where "BLAST_TEMP_MIN = 20.0"
definition BLAST_TEMP_MAX :: real where "BLAST_TEMP_MAX = 28.0"
definition BLAST_HUMIDITY :: real where "BLAST_HUMIDITY = 85.0"

text \<open>The header row, and the line end that \<open>println\<close> writes (carriage return, line feed).\<close>

definition csv_header :: string where
  "csv_header = ''timestamp,air_temp,humidity,pressure,water_temp,water_level''"

abbreviation CR :: char where "CR \<equiv> CHR 0x0D"
abbreviation LF :: char where "LF \<equiv> CHR 0x0A"

subsection \<open>What the platform fixes\<close>

text \<open>
  Arithmetic on \<open>double\<close> and \<open>float\<close> rounds every result.  The two rounding
  functions are parameters: \<open>to_double\<close> rounds an exact result (or a decimal literal)
  to \<open>double\<close>, \<open>to_float\<close> rounds a \<open>double\<close> stored in a \<open>float\<close> variable.
  \<open>DEVICE_DISCONNECTED_C\<close> is a macro of the DallasTemperature library, which is not
  part of the sketch; it is a parameter as well.
\<close>

record platform =
  to_double :: "real \<Rightarrow> real"
  to_float :: "real \<Rightarrow> real"
  DEVICE_DISCONNECTED_C :: real

text \<open>Arithmetic without rounding error, for comparison with the formula on paper.\<close>

definition exact_arith :: "real \<Rightarrow> platform" where
  "exact_arith dc = \<lparr>to_double = (\<lambda>x. x), to_float = (\<lambda>x. x), DEVICE_DISCONNECTED_C = dc\<rparr>"







subsection \<open>Globals, the broken-down time, the environment of a cycle\<close>

record sensors =
  airTemp :: cfloat
  humidity :: cfloat
  pressure :: cfloat
  waterTemp :: cfloat
  waterLevel :: cfloat

text \<open>The fields of \<open>struct tm\<close> that the sketch reads; all are C \<open>int\<close>s.\<close>

record tm =
  tm_sec :: int
  tm_min :: int
  tm_hour :: int
  tm_mday :: int
  tm_mon :: int
  tm_year :: int

text \<open>
  What the hardware and the libraries deliver during one cycle: whether \<open>SD.begin\<close>
  and the two \<open>SD.open\<close> calls succeed, the sensor readings, and the results of the two
  calls of \<open>getLocalTime\<close> (\<open>None\<close> when it returns false), the first in
  \<open>getTimestamp\<close>, the second in \<open>calcSleepInterval\<close>.  \<open>buf_junk\<close> is what
  \<open>String(buf)\<close> reads from the local buffer when \<open>strftime\<close> could not fit its
  result and left the buffer unspecified.
\<close>

record env =
  sd_begin :: bool
  open_write :: bool
  open_append :: bool
  bme_temperature :: cfloat
  bme_humidity :: cfloat
  bme_pressure :: cfloat
  ds_tempC :: cfloat
  adc_raw :: int
  time_csv :: "tm option"
  time_sched :: "tm option"
  buf_junk :: string

text \<open>
  The device: the content of \<open>/data.csv\<close> on the card (\<open>None\<close> when the file does not
  exist), the globals, and what \<open>goToSleep\<close> did: the argument it was called with and
  the wake-up timer it armed, in microseconds.
\<close>

record device =
  card :: "string option"
  globals :: sensors
  sleep_arg :: "int option"
  wake_timer_us :: "64 word option"
  asleep :: bool

definition boot :: "string option \<Rightarrow> device" where
  "boot c = \<lparr>card = c,
     globals = \<lparr>airTemp = Fin 0, humidity = Fin 0, pressure = Fin 0,
                 waterTemp = Fin 0, waterLevel = Fin 0\<rparr>,
     sleep_arg = None, wake_timer_us = None, asleep = False\<rparr>"

subsection \<open>Decimal output\<close>

text \<open>
  The decimal digits of a natural number, most significant first, and their
  characters; \<open>digit_char\<close> is only applied to digits, which are below 10.
\<close>

fun digits :: "nat \<Rightarrow> nat list" where
  "digits n = (if n < 10 then [n] else digits (n div 10) @ [n mod 10])"

definition digit_char :: "nat \<Rightarrow> char" where
  "digit_char d = ''0123456789'' ! d"

definition show_nat :: "nat \<Rightarrow> string" where
  "show_nat n = map digit_char (digits n)"

definition show_int :: "int \<Rightarrow> string" where
  "show_int i = (if i < 0 then ''-'' @ show_nat (nat (- i)) else show_nat (nat i))"

text \<open>The conversion \<open>%.2d\<close>: at least two digits, after the sign.\<close>

definition pad2 :: "int \<Rightarrow> string" where
  "pad2 i = (if i < 0 then ''-'' else []) @
     (if \<bar>i\<bar> < 10 then ''0'' @ show_nat (nat \<bar>i\<bar>) else show_nat (nat \<bar>i\<bar>))"

text \<open>
  \<open>strftime(buf, maxsize, "%Y-%m-%dT%H:%M:%S+09:00", &timeinfo)\<close>: the formatted time
  when it fits the buffer with its terminating zero, nothing otherwise.
\<close>

definition strftime :: "nat \<Rightarrow> tm \<Rightarrow> string option" where
  "strftime maxsize t =
     (let s = show_int (tm_year t + 1900) @ ''-'' @ pad2 (tm_mon t + 1) @ ''-'' @ pad2 (tm_mday t)
              @ ''T'' @ pad2 (tm_hour t) @ '':'' @ pad2 (tm_min t) @ '':'' @ pad2 (tm_sec t)
              @ ''+09:00''
      in if length s < maxsize then Some s else None)"

text \<open>Rounding a non-negative real to the nearest integer, a tie to the even one.\<close>

definition round_half_even :: "real \<Rightarrow> nat" where
  "round_half_even x =
     (let f = nat \<lfloor>x\<rfloor>; r = x - real f in
      if r < 1/2 then f else if r > 1/2 then f + 1 else if even f then f else f + 1)"

text \<open>
  The conversion \<open>%.1f\<close> of \<open>printf\<close>: the sign, the integer part, the point and one
  decimal.  The \<open>float\<close> argument is promoted to \<open>double\<close> without rounding and its
  exact value is rounded to the nearest tenth, a tie to the even digit.  A negative
  value that rounds to zero keeps its sign; an infinity and a NaN are printed as
  words.
\<close>

fun fmt1 :: "cfloat \<Rightarrow> string" where
  "fmt1 (Fin x) =
     (let n = round_half_even (\<bar>x\<bar> * 10) in
      (if x < 0 then ''-'' else []) @ show_nat (n div 10) @ ''.'' @ show_nat (n mod 10))"
| "fmt1 NegZero = ''-0.0''"
| "fmt1 PInf = ''inf''"
| "fmt1 NInf = ''-inf''"
| "fmt1 NaN = ''nan''"

subsection \<open>Reading the sensors\<close>

text \<open>
  \<open>adcToWaterLevel(rawAdc)\<close>.  \<open>rawAdc\<close> is converted to \<open>double\<close> without rounding;
  every operation is on \<open>double\<close>, and the two assignments round to \<open>float\<close>.  With a
  32-bit \<open>rawAdc\<close> nothing overflows.  The last division is by the constant
  \<open>3.3 - 0.5\<close> as the compiler computes it; were it zero, the quotient would be an
  infinity or a NaN, which the two comparisons treat as C does.
\<close>

definition adcToWaterLevel :: "platform \<Rightarrow> int \<Rightarrow> cfloat" where
  "adcToWaterLevel P rawAdc =
     (let d = to_double P; f = to_float P;
          voltage = f (d (d (of_int rawAdc * d 3.3) / 4095.0));
          num = d (d (voltage - 0.5) * 20.0);
          den = d (d 3.3 - 0.5);
          level = (if den = 0 then (if num > 0 then PInf else if num < 0 then NInf else NaN)
                   else Fin (f (d (num / den))));
          level = (if cf_lt level 0 then Fin 0 else level);
          level = (if cf_gt level 20 then Fin 20 else level)
      in level)"

text \<open>\<open>bme.readPressure() / 100.0\<close>, stored in a \<open>float\<close>.\<close>

fun div100 :: "platform \<Rightarrow> cfloat \<Rightarrow> cfloat" where
  "div100 P (Fin x) =
     (let r = to_float P (to_double P (x / 100.0)) in if r = 0 \<and> x < 0 then NegZero else Fin r)"
| "div100 P NegZero = NegZero"
| "div100 P PInf = PInf"
| "div100 P NInf = NInf"
| "div100 P NaN = NaN"

text \<open>
  \<open>readSensors()\<close> assigns the five globals in the order of the source.  The reading of
  the DS18B20 is compared with \<open>DEVICE_DISCONNECTED_C\<close> and replaced by \<open>-999\<close> when
  equal.
\<close>

definition readSensors :: "platform \<Rightarrow> env \<Rightarrow> sensors \<Rightarrow> sensors" where
  "readSensors P e g =
     (let g = g\<lparr>airTemp := bme_temperature e\<rparr>;
          g = g\<lparr>humidity := bme_humidity e\<rparr>;
          g = g\<lparr>pressure := div100 P (bme_pressure e)\<rparr>;
          g = g\<lparr>waterTemp := ds_tempC e\<rparr>;
          g = (if cf_eq (waterTemp g) (DEVICE_DISCONNECTED_C P)
               then g\<lparr>waterTemp := Fin (- 999)\<rparr> else g);
          rawAdc = adc_raw e
      in g\<lparr>waterLevel := adcToWaterLevel P rawAdc\<rparr>)"

subsection \<open>Writing the CSV row\<close>

text \<open>
  \<open>getTimestamp()\<close>: the formatted local time, or the fixed string when
  \<open>getLocalTime\<close> fails.
\<close>

definition getTimestamp :: "env \<Rightarrow> string" where
  "getTimestamp e =
     (case time_csv e of
        Some timeinfo \<Rightarrow> (case strftime 30 timeinfo of Some s \<Rightarrow> s | None \<Rightarrow> buf_junk e)
      | None \<Rightarrow> ''1970-01-01T00:00:00+09:00'')"

text \<open>What \<open>f.printf("%s,%.1f,%.1f,%.1f,%.1f,%.1f\n", ...)\<close> writes, without the line feed.\<close>

definition csv_row :: "string \<Rightarrow> sensors \<Rightarrow> string" where
  "csv_row timestamp g =
     timestamp @ '','' @ fmt1 (airTemp g) @ '','' @ fmt1 (humidity g) @ '','' @ fmt1 (pressure g)
       @ '','' @ fmt1 (waterTemp g) @ '','' @ fmt1 (waterLevel g)"

text \<open>
  \<open>writeCSV()\<close>.  \<open>SD.open(path, FILE_APPEND)\<close> creates the file when it does not
  exist.  When the file cannot be opened nothing is written.
\<close>

definition writeCSV :: "env \<Rightarrow> sensors \<Rightarrow> string option \<Rightarrow> string option" where
  "writeCSV e g c =
     (let timestamp = getTimestamp e in
      if \<not> open_append e then c
      else Some ((case c of None \<Rightarrow> [] | Some old \<Rightarrow> old) @ csv_row timestamp g @ [LF]))"

subsection \<open>The sleep interval\<close>

text \<open>
  \<open>calcSleepInterval()\<close> reads the clock and the globals.  The argument \<open>lt\<close> is what
  \<open>getLocalTime(&timeinfo)\<close> delivers; when it fails \<open>hour\<close> keeps its initial value 12.
\<close>

definition calcSleepInterval :: "tm option \<Rightarrow> sensors \<Rightarrow> int" where
  "calcSleepInterval lt g =
     (let hour = (case lt of Some timeinfo \<Rightarrow> tm_hour timeinfo | None \<Rightarrow> 12) in
      if hour \<ge> 22 \<or> hour < 5 then INTERVAL_NIGHT
      else if cf_ge (airTemp g) BLAST_TEMP_MIN \<and> cf_le (airTemp g) BLAST_TEMP_MAX
              \<and> cf_gt (humidity g) BLAST_HUMIDITY
        then INTERVAL_HIGH_RISK
      else INTERVAL_NORMAL)"

subsection \<open>Deep sleep and the cycle\<close>

text \<open>
  \<open>goToSleep(seconds)\<close> arms the timer with \<open>(uint64_t)seconds * 1000000ULL\<close> and
  starts deep sleep; it does not return.
\<close>

definition goToSleep :: "int \<Rightarrow> device \<Rightarrow> device" where
  "goToSleep seconds d =
     d\<lparr>sleep_arg := Some seconds,
       wake_timer_us := Some (word_of_int seconds * 1000000),
       asleep := True\<rparr>"

text \<open>
  \<open>setup()\<close>, here \<open>setup_fn\<close>.  The serial output and the initialisation of the
  buses change nothing that is modelled; a BME280 that is not found only prints a
  message.  Wi-Fi is not configured (\<open>WIFI_SSID\<close> is not defined), so \<open>syncTime\<close> is
  not compiled in.
\<close>

definition setup_fn :: "platform \<Rightarrow> env \<Rightarrow> device \<Rightarrow> device" where
  "setup_fn P e d =
     (if \<not> sd_begin e then goToSleep INTERVAL_NORMAL d
      else
        let d = (if card d = None
                 then (if open_write e then d\<lparr>card := Some (csv_header @ [CR, LF])\<rparr> else d)
                 else d);
            d = d\<lparr>globals := readSensors P e (globals d)\<rparr>;
            d = d\<lparr>card := writeCSV e (globals d) (card d)\<rparr>;
            sleepSec = calcSleepInterval (time_sched e) (globals d)
        in goToSleep sleepSec d)"

text \<open>
  Successive cycles: each wake-up is a cold boot, only the card is carried over.
\<close>

definition cycle :: "platform \<Rightarrow> string option \<Rightarrow> env \<Rightarrow> string option" where
  "cycle P c e = card (setup_fn P e (boot c))"

definition run_cycles :: "platform \<Rightarrow> env list \<Rightarrow> string option \<Rightarrow> string option" where
  "run_cycles P es c = foldl (cycle P) c es"

subsection \<open>Reading the file back\<close>

text \<open>
  The sketch only writes the file.  To state what a reader gets back, the documented
  format is taken from the specification (section 6): one record per line, six
  comma-separated columns, the timestamp first, then five decimal numbers.  These
  definitions follow the specification's words, not the source.  A line ends at a
  line feed.  A field that is not a decimal number (\<open>nan\<close>, \<open>inf\<close>) is missing.
\<close>

fun spec_lines :: "string \<Rightarrow> string list" where
  "spec_lines [] = []"
| "spec_lines (c # cs) =
     (if c = LF then [] # spec_lines cs
      else (case spec_lines cs of [] \<Rightarrow> [[c]] | l # ls \<Rightarrow> (c # l) # ls))"

fun split_commas :: "string \<Rightarrow> string list" where
  "split_commas [] = [[]]"
| "split_commas (c # cs) =
     (if c = CHR '','' then [] # split_commas cs
      else (case split_commas cs of [] \<Rightarrow> [[c]] | f # fs \<Rightarrow> (c # f) # fs))"

definition digit_val :: "char \<Rightarrow> nat option" where
  "digit_val c = (let k = (of_char c :: nat) in if 48 \<le> k \<and> k \<le> 57 then Some (k - 48) else None)"

fun parse_digits :: "nat \<Rightarrow> string \<Rightarrow> nat option" where
  "parse_digits a [] = Some a"
| "parse_digits a (c # cs) =
     (case digit_val c of None \<Rightarrow> None | Some v \<Rightarrow> parse_digits (10 * a + v) cs)"

definition parse_nat :: "string \<Rightarrow> nat option" where
  "parse_nat s = (if s = [] then None else parse_digits 0 s)"

definition parse_unsigned :: "string \<Rightarrow> real option" where
  "parse_unsigned s =
     (let ip = takeWhile (\<lambda>c. c \<noteq> CHR ''.'') s; rest = dropWhile (\<lambda>c. c \<noteq> CHR ''.'') s in
      case parse_nat ip of
        None \<Rightarrow> None
      | Some a \<Rightarrow>
          (if rest = [] then Some (real a)
           else (case parse_nat (tl rest) of
                   None \<Rightarrow> None
                 | Some b \<Rightarrow> Some (real a + real b / 10 ^ length (tl rest)))))"

definition spec_parse_decimal :: "string \<Rightarrow> real option" where
  "spec_parse_decimal s =
     (case s of
        [] \<Rightarrow> None
      | c # cs \<Rightarrow> (if c = CHR ''-'' then map_option uminus (parse_unsigned cs)
                  else parse_unsigned s))"

definition spec_parse_row :: "string \<Rightarrow> (string \<times> real option list) option" where
  "spec_parse_row l =
     (case split_commas l of
        [ts, a, h, p, wt, wl] \<Rightarrow> Some (ts, map spec_parse_decimal [a, h, p, wt, wl])
      | _ \<Rightarrow> None)"

text \<open>
  From the specification's words: a value rounded to one decimal place, that is to the
  nearest tenth (a tie to the even tenth, as \<open>printf\<close> rounds).
\<close>

definition spec_round1 :: "real \<Rightarrow> real" where
  "spec_round1 x = (if x < 0 then - 1 else 1) * real (round_half_even (\<bar>x\<bar> * 10)) / 10"


text \<open>
  The result of \<open>strftime\<close> fits the buffer of \<open>getTimestamp\<close> (it does for every year of
  at most eight digits), or the clock is not set.
\<close>

definition clock_ok :: "env \<Rightarrow> bool" where
  "clock_ok e = (case time_csv e of None \<Rightarrow> True | Some t \<Rightarrow> strftime 30 t \<noteq> None)"

subsection \<open>Notions used in the statements\<close>

text \<open>The number a \<open>float\<close> stands for, if it is finite.\<close>

fun cf_val :: "cfloat \<Rightarrow> real option" where
  "cf_val (Fin x) = Some x"
| "cf_val NegZero = Some 0"
| "cf_val PInf = None"
| "cf_val NInf = None"
| "cf_val NaN = None"

text \<open>
  The row a cycle appends: the globals are zero after the cold boot and \<open>readSensors\<close>
  overwrites all five.
\<close>

definition cycle_row :: "platform \<Rightarrow> env \<Rightarrow> string" where
  "cycle_row P e = csv_row (getTimestamp e) (readSensors P e (globals (boot None)))"

subsection \<open>Concrete inputs\<close>

definition at_hour :: "int \<Rightarrow> tm" where
  "at_hour h = \<lparr>tm_sec = 5, tm_min = 7, tm_hour = h, tm_mday = 15, tm_mon = 7, tm_year = 126\<rparr>"

definition reading :: "cfloat \<Rightarrow> cfloat \<Rightarrow> sensors" where
  "reading t h = \<lparr>airTemp = t, humidity = h, pressure = Fin 1013.25, waterTemp = Fin 22.5,
     waterLevel = Fin 5\<rparr>"

definition sample_env :: "bool \<Rightarrow> bool \<Rightarrow> tm option \<Rightarrow> env" where
  "sample_env sd app lt = \<lparr>sd_begin = sd, open_write = True, open_append = app,
     bme_temperature = Fin 24.35, bme_humidity = Fin 90.25, bme_pressure = Fin 101325,
     ds_tempC = Fin (- 127), adc_raw = 2000, time_csv = lt, time_sched = lt, buf_junk = []\<rparr>"

section \<open>Properties\<close>

declare digits.simps [simp del]

lemmas interval_defs = INTERVAL_NORMAL_def INTERVAL_HIGH_RISK_def INTERVAL_NIGHT_def
lemmas blast_defs = BLAST_TEMP_MIN_def BLAST_TEMP_MAX_def BLAST_HUMIDITY_def

subsection \<open>Decimal digits are read back\<close>

lemma digits_nonempty: "digits n \<noteq> []"
  by (induction n rule: digits.induct) (subst digits.simps, simp)

lemma digits_lt_10: "d \<in> set (digits n) \<Longrightarrow> d < 10"
proof (induction n rule: digits.induct)
  case (1 n)
  show ?case
  proof (cases "n < 10")
    case True
    with "1.prems" show ?thesis by (subst (asm) digits.simps) simp
  next
    case False
    with "1.prems" have "d \<in> set (digits (n div 10)) \<or> d = n mod 10"
      by (subst (asm) digits.simps) auto
    with False "1.IH" show ?thesis by auto
  qed
qed

lemma digits_value: "foldl (\<lambda>a d. 10 * a + d) 0 (digits n) = n"
proof (induction n rule: digits.induct)
  case (1 n)
  show ?case
  proof (cases "n < 10")
    case True
    then show ?thesis by (subst digits.simps) simp
  next
    case False
    with "1.IH" show ?thesis by (subst digits.simps) simp
  qed
qed

lemma digits_small: "n < 10 \<Longrightarrow> digits n = [n]"
  by (subst digits.simps) simp

lemma digit_val_digit_char: "d < 10 \<Longrightarrow> digit_val (digit_char d) = Some d"
proof -
  assume "d < 10"
  then have "d \<in> {0, 1, 2, 3, 4, 5, 6, 7, 8, 9}" by auto
  then show ?thesis by (auto simp: digit_val_def digit_char_def)
qed

lemma parse_digits_map:
  "(\<And>d. d \<in> set ds \<Longrightarrow> d < 10) \<Longrightarrow>
   parse_digits a (map digit_char ds) = Some (foldl (\<lambda>a d. 10 * a + d) a ds)"
  by (induction ds arbitrary: a) (simp_all add: digit_val_digit_char)

lemma parse_nat_show_nat: "parse_nat (show_nat n) = Some n"
  by (simp add: parse_nat_def show_nat_def digits_nonempty parse_digits_map digits_lt_10 digits_value)

lemma show_nat_digit: "c \<in> set (show_nat n) \<Longrightarrow> digit_val c \<noteq> None"
  by (auto simp: show_nat_def digit_val_digit_char dest!: digits_lt_10)

lemma not_digit:
  "digit_val (CHR '','') = None" "digit_val (CHR ''.'') = None" "digit_val (CHR ''-'') = None"
  "digit_val LF = None" "digit_val CR = None"
  by (simp_all add: digit_val_def)

lemma show_nat_free:
  "CHR '','' \<notin> set (show_nat n)" "CHR ''.'' \<notin> set (show_nat n)" "CHR ''-'' \<notin> set (show_nat n)"
  "LF \<notin> set (show_nat n)" "CR \<notin> set (show_nat n)"
  using show_nat_digit not_digit by blast+

lemma show_nat_nonempty: "show_nat n \<noteq> []"
  by (simp add: show_nat_def digits_nonempty)

lemma show_nat_small: "n < 10 \<Longrightarrow> show_nat n = [digit_char n]"
  by (simp add: show_nat_def digits_small)

lemma takeWhile_stop: "x \<notin> set xs \<Longrightarrow> takeWhile (\<lambda>c. c \<noteq> x) (xs @ x # ys) = xs"
  by (induction xs) auto

lemma dropWhile_stop: "x \<notin> set xs \<Longrightarrow> dropWhile (\<lambda>c. c \<noteq> x) (xs @ x # ys) = x # ys"
  by (induction xs) auto

lemma parse_unsigned_point:
  "parse_unsigned (show_nat a @ ''.'' @ show_nat b) = Some (real a + real b / 10 ^ length (show_nat b))"
proof -
  let ?s = "show_nat a @ CHR ''.'' # show_nat b"
  have tw: "takeWhile (\<lambda>c. c \<noteq> CHR ''.'') ?s = show_nat a"
    using show_nat_free(2) [of a] by (rule takeWhile_stop)
  have dw: "dropWhile (\<lambda>c. c \<noteq> CHR ''.'') ?s = CHR ''.'' # show_nat b"
    using show_nat_free(2) [of a] by (rule dropWhile_stop)
  have "parse_unsigned ?s = Some (real a + real b / 10 ^ length (show_nat b))"
    unfolding parse_unsigned_def Let_def tw dw by (simp add: parse_nat_show_nat)
  then show ?thesis by simp
qed

lemma parse_unsigned_tenths:
  "parse_unsigned (show_nat a @ ''.'' @ show_nat (n mod 10)) = Some (real a + real (n mod 10) / 10)"
  by (simp only: parse_unsigned_point) (simp add: show_nat_small)

lemma show_nat_hd: "\<exists>c cs. show_nat a = c # cs \<and> c \<noteq> CHR ''-''"
  using show_nat_nonempty [of a] show_nat_free(3) [of a] by (cases "show_nat a") auto

lemma tenths: "real (n div 10) + real (n mod 10) / 10 = real n / 10"
proof -
  have "real n = real (10 * (n div 10) + n mod 10)" by simp
  also have "\<dots> = 10 * real (n div 10) + real (n mod 10)" by (simp only: of_nat_add of_nat_mult of_nat_numeral)
  finally show ?thesis by simp
qed

lemma parse_fmt1_Fin: "spec_parse_decimal (fmt1 (Fin x)) = Some (spec_round1 x)"
proof -
  define n where "n = round_half_even (\<bar>x\<bar> * 10)"
  obtain c cs where hd: "show_nat (n div 10) = c # cs" "c \<noteq> CHR ''-''"
    using show_nat_hd by blast
  have u: "parse_unsigned (show_nat (n div 10) @ ''.'' @ show_nat (n mod 10)) = Some (real n / 10)"
    by (simp only: parse_unsigned_tenths tenths)
  show ?thesis
  proof (cases "x < 0")
    case True
    then show ?thesis using u by (simp add: spec_parse_decimal_def spec_round1_def Let_def n_def)
  next
    case False
    have "spec_parse_decimal (show_nat (n div 10) @ ''.'' @ show_nat (n mod 10))
        = parse_unsigned (show_nat (n div 10) @ ''.'' @ show_nat (n mod 10))"
      using hd by (simp add: spec_parse_decimal_def)
    with False u show ?thesis by (simp add: spec_round1_def Let_def n_def)
  qed
qed

lemma parse_lit:
  "spec_parse_decimal ''-0.0'' = Some 0" "spec_parse_decimal ''inf'' = None" "spec_parse_decimal ''-inf'' = None"
  "spec_parse_decimal ''nan'' = None"
  by (simp_all add: spec_parse_decimal_def parse_unsigned_def parse_nat_def digit_val_def)

lemma spec_round1_zero: "spec_round1 0 = 0"
  by (simp add: spec_round1_def round_half_even_def)

lemma parse_fmt1: "spec_parse_decimal (fmt1 v) = map_option spec_round1 (cf_val v)"
proof (cases v)
  case (Fin x)
  then show ?thesis using parse_fmt1_Fin [of x] by simp
qed (simp_all add: parse_lit spec_round1_zero)

lemma round_half_even_near: "0 \<le> y \<Longrightarrow> \<bar>real (round_half_even y) - y\<bar> \<le> 1/2"
proof -
  assume y: "0 \<le> y"
  define k where "k = nat \<lfloor>y\<rfloor>"
  have "real k = of_int \<lfloor>y\<rfloor>" using y by (simp add: k_def)
  then have k: "real k \<le> y" "y < real k + 1" by linarith+
  show ?thesis
    unfolding round_half_even_def Let_def k_def [symmetric]
    using k by (auto simp: abs_if)
qed

lemma spec_round1_near: "\<bar>spec_round1 x - x\<bar> \<le> 1/20"
proof -
  have "\<bar>real (round_half_even (\<bar>x\<bar> * 10)) - \<bar>x\<bar> * 10\<bar> \<le> 1/2"
    by (rule round_half_even_near) simp
  then show ?thesis by (auto simp: spec_round1_def abs_if split: if_splits)
qed

subsection \<open>Separators do not occur inside a field\<close>

lemma show_int_free:
  "CHR '','' \<notin> set (show_int i)" "LF \<notin> set (show_int i)" "CR \<notin> set (show_int i)"
  by (simp_all add: show_int_def show_nat_free)

lemma pad2_free:
  "CHR '','' \<notin> set (pad2 i)" "LF \<notin> set (pad2 i)" "CR \<notin> set (pad2 i)"
  by (simp_all add: pad2_def show_nat_free)

lemma strftime_free:
  assumes "strftime m t = Some s"
  shows "CHR '','' \<notin> set s" "LF \<notin> set s" "CR \<notin> set s"
  using assms
  by (auto simp: strftime_def Let_def show_int_free pad2_free split: if_splits)

lemma getTimestamp_free:
  assumes "clock_ok e"
  shows "CHR '','' \<notin> set (getTimestamp e)" "LF \<notin> set (getTimestamp e)" "CR \<notin> set (getTimestamp e)"
  using assms strftime_free [of 30]
  by (auto simp: getTimestamp_def clock_ok_def split: option.splits)

lemma fmt1_free:
  "CHR '','' \<notin> set (fmt1 v)" "LF \<notin> set (fmt1 v)" "CR \<notin> set (fmt1 v)"
  by (cases v; simp add: Let_def show_nat_free)+

lemma split_commas_field:
  "CHR '','' \<notin> set f \<Longrightarrow> split_commas (f @ CHR '','' # rest) = f # split_commas rest"
  by (induction f) auto

lemma split_commas_last: "CHR '','' \<notin> set f \<Longrightarrow> split_commas f = [f]"
  by (induction f) auto

lemma spec_lines_line: "LF \<notin> set l \<Longrightarrow> spec_lines (l @ LF # rest) = l # spec_lines rest"
  by (induction l) auto

lemma spec_lines_rows:
  "(\<And>r. r \<in> set rows \<Longrightarrow> LF \<notin> set r) \<Longrightarrow> spec_lines (concat (map (\<lambda>r. r @ [LF]) rows)) = rows"
  by (induction rows) (simp_all add: spec_lines_line)

lemma split_csv_row:
  assumes "CHR '','' \<notin> set ts"
  shows "split_commas (csv_row ts g) =
     [ts, fmt1 (airTemp g), fmt1 (humidity g), fmt1 (pressure g), fmt1 (waterTemp g), fmt1 (waterLevel g)]"
  using assms by (simp add: csv_row_def split_commas_field split_commas_last fmt1_free)

lemma csv_row_no_LF: "LF \<notin> set ts \<Longrightarrow> LF \<notin> set (csv_row ts g)"
  by (simp add: csv_row_def fmt1_free)

subsection \<open>One cycle and many\<close>

lemma cycle_existing:
  assumes "sd_begin e" and "open_append e"
  shows "cycle P (Some old) e = Some (old @ cycle_row P e @ [LF])"
  using assms by (simp add: cycle_def setup_fn_def goToSleep_def Let_def writeCSV_def cycle_row_def boot_def)

lemma cycle_fresh:
  assumes "sd_begin e" and "open_write e" and "open_append e"
  shows "cycle P None e = Some (csv_header @ [CR, LF] @ cycle_row P e @ [LF])"
  using assms by (simp add: cycle_def setup_fn_def goToSleep_def Let_def writeCSV_def cycle_row_def boot_def)

lemma run_cycles_existing:
  assumes "\<And>e. e \<in> set es \<Longrightarrow> sd_begin e \<and> open_append e"
  shows "run_cycles P es (Some old) = Some (old @ concat (map (\<lambda>e. cycle_row P e @ [LF]) es))"
  using assms
proof (induction es arbitrary: old)
  case Nil
  then show ?case by (simp add: run_cycles_def)
next
  case (Cons e es)
  have "run_cycles P (e # es) (Some old) = run_cycles P es (cycle P (Some old) e)"
    by (simp add: run_cycles_def)
  also have "\<dots> = run_cycles P es (Some (old @ cycle_row P e @ [LF]))"
    using Cons.prems by (simp add: cycle_existing)
  also have "\<dots> = Some ((old @ cycle_row P e @ [LF]) @ concat (map (\<lambda>e. cycle_row P e @ [LF]) es))"
    using Cons.prems by (intro Cons.IH) simp
  finally show ?case by simp
qed

lemma cycle_row_free:
  assumes "clock_ok e"
  shows "LF \<notin> set (cycle_row P e)" "cycle_row P e \<noteq> csv_header @ [CR]"
proof -
  show "LF \<notin> set (cycle_row P e)"
    using assms by (simp add: cycle_row_def csv_row_no_LF getTimestamp_free)
  have "CR \<notin> set (cycle_row P e)"
    using assms by (simp add: cycle_row_def csv_row_def fmt1_free getTimestamp_free)
  then show "cycle_row P e \<noteq> csv_header @ [CR]" by auto
qed

lemma clock_ok_sample: "clock_ok (sample_env sd app None)" "clock_ok (sample_env sd app (Some (at_hour 14)))"
  by (simp_all add: clock_ok_def sample_env_def strftime_def at_hour_def Let_def show_int_def show_nat_def
      pad2_def digits.simps)

subsection \<open>IEEE 754 rounding is off by at most half a step\<close>














subsection \<open>Rounding errors in the calibration transform\<close>







subsection \<open>The claims\<close>

text \<open>
  C1.  Every path through \<open>setup()\<close> ends in \<open>goToSleep\<close> with a positive number of
  seconds, one of the three intervals, and the wake-up timer holds that many
  microseconds without wrap-around: whatever the card, the files, the clock and the
  sensors do.  When \<open>SD.begin\<close> fails the device sleeps for \<open>INTERVAL_NORMAL\<close> and the
  card is untouched; when the file cannot be opened for appending the interval is
  the scheduler's.
\<close>

theorem every_path_sleeps:
  "asleep (setup_fn P e d) \<and>
   (\<exists>s. sleep_arg (setup_fn P e d) = Some s \<and> 0 < s
        \<and> s \<in> {INTERVAL_NORMAL, INTERVAL_HIGH_RISK, INTERVAL_NIGHT}
        \<and> wake_timer_us (setup_fn P e d) = Some (word_of_int s * 1000000)
        \<and> uint (word_of_int s * 1000000 :: 64 word) = s * 1000000) \<and>
   (\<not> sd_begin e \<longrightarrow> sleep_arg (setup_fn P e d) = Some INTERVAL_NORMAL \<and> card (setup_fn P e d) = card d)"
  by (simp add: setup_fn_def goToSleep_def Let_def calcSleepInterval_def interval_defs)

theorem every_path_sleeps_witness:
  "sleep_arg (setup_fn (exact_arith (- 127)) (sample_env False True None) (boot None)) = Some 1800 \<and>
   sleep_arg (setup_fn (exact_arith (- 127)) (sample_env True False None) (boot None)) = Some 600 \<and>
   card (setup_fn (exact_arith (- 127)) (sample_env True False None) (boot None)) = Some (csv_header @ [CR, LF])"
  using every_path_sleeps [of "exact_arith (- 127)" "sample_env False True None" "boot None"]
    every_path_sleeps [of "exact_arith (- 127)" "sample_env True False None" "boot None"]
  by (simp add: setup_fn_def goToSleep_def Let_def calcSleepInterval_def interval_defs blast_defs
      sample_env_def boot_def readSensors_def writeCSV_def)

text \<open>
  C2.  In the night window, hours 22, 23 and 0 to 4, the interval is the night
  interval whatever the air temperature and the humidity are, high-risk values
  included: the night test comes first.
\<close>

theorem night_window_wins:
  assumes "(22 \<le> tm_hour t \<and> tm_hour t < 24) \<or> (0 \<le> tm_hour t \<and> tm_hour t < 5)"
  shows "calcSleepInterval (Some t) g = INTERVAL_NIGHT"
  using assms by (auto simp: calcSleepInterval_def)

theorem night_window_wins_witness:
  "calcSleepInterval (Some (at_hour 23)) (reading (Fin 24) (Fin 90)) = 3600 \<and>
   calcSleepInterval (Some (at_hour 3)) (reading (Fin 24) (Fin 90)) = 3600"
  using night_window_wins [of "at_hour 23" "reading (Fin 24) (Fin 90)"]
    night_window_wins [of "at_hour 3" "reading (Fin 24) (Fin 90)"]
  by (simp add: at_hour_def INTERVAL_NIGHT_def)

text \<open>
  C3.  At an hour outside the night window, 5 to 21, the interval is the high-risk
  interval exactly when the air temperature is in the band from \<open>BLAST_TEMP_MIN\<close> to
  \<open>BLAST_TEMP_MAX\<close> and the humidity exceeds \<open>BLAST_HUMIDITY\<close>, and the normal
  interval otherwise.  At 14 h, 24 degrees and 90 percent give the high-risk
  interval, 24 degrees and 50 percent the normal one.
\<close>

theorem risk_rule_by_day:
  assumes "5 \<le> tm_hour t" and "tm_hour t < 22"
  shows "calcSleepInterval (Some t) g =
           (if cf_ge (airTemp g) BLAST_TEMP_MIN \<and> cf_le (airTemp g) BLAST_TEMP_MAX
               \<and> cf_gt (humidity g) BLAST_HUMIDITY
            then INTERVAL_HIGH_RISK else INTERVAL_NORMAL)
       \<and> (airTemp g = Fin a \<and> humidity g = Fin h \<longrightarrow>
            calcSleepInterval (Some t) g =
              (if 20 \<le> a \<and> a \<le> 28 \<and> 85 < h then INTERVAL_HIGH_RISK else INTERVAL_NORMAL))"
  using assms by (simp add: calcSleepInterval_def blast_defs)

theorem risk_rule_by_day_witness:
  "calcSleepInterval (Some (at_hour 14)) (reading (Fin 24) (Fin 90)) = 600 \<and>
   calcSleepInterval (Some (at_hour 14)) (reading (Fin 24) (Fin 50)) = 1800"
  using risk_rule_by_day [of "at_hour 14" "reading (Fin 24) (Fin 90)" 24 90]
    risk_rule_by_day [of "at_hour 14" "reading (Fin 24) (Fin 50)" 24 50]
  by (simp add: at_hour_def reading_def interval_defs blast_defs)

text \<open>
  C4.  A NaN air temperature or a NaN humidity never satisfies the risk test: outside
  the night window (the clock's hour is 5 to 21, or the clock is not set) the interval
  is the normal one.
\<close>

theorem nan_never_risk:
  assumes "lt = None \<or> (\<exists>t. lt = Some t \<and> 5 \<le> tm_hour t \<and> tm_hour t < 22)"
    and "airTemp g = NaN \<or> humidity g = NaN"
  shows "calcSleepInterval lt g = INTERVAL_NORMAL"
  using assms by (auto simp: calcSleepInterval_def)

theorem nan_never_risk_witness:
  "calcSleepInterval (Some (at_hour 14)) (reading NaN (Fin 90)) = 1800 \<and>
   calcSleepInterval (Some (at_hour 14)) (reading (Fin 24) NaN) = 1800 \<and>
   calcSleepInterval None (reading NaN (Fin 90)) = 1800"
  using nan_never_risk [of "Some (at_hour 14)" "reading NaN (Fin 90)"]
    nan_never_risk [of "Some (at_hour 14)" "reading (Fin 24) NaN"]
    nan_never_risk [of None "reading NaN (Fin 90)"]
  by (simp add: at_hour_def reading_def interval_defs)

text \<open>
  C5, where it fails.  Zero cycles leave a card without the file as it is: there is
  no header line.  And a cycle in which the file cannot be opened for the header but
  can be opened for appending leaves the row alone in the file, without a header.
\<close>

theorem no_cycle_no_header:
  "run_cycles (exact_arith (- 127)) [] None = None \<and>
   run_cycles (exact_arith (- 127)) [] None \<noteq> Some (csv_header @ [CR, LF]) \<and>
   run_cycles (exact_arith (- 127)) [(sample_env True True None)\<lparr>open_write := False\<rparr>] None
     = Some (''1970-01-01T00:00:00+09:00,24.4,90.2,1013.2,-999.0,7.9'' @ [LF])"
  by (simp add: run_cycles_def cycle_def setup_fn_def goToSleep_def writeCSV_def csv_row_def
      getTimestamp_def sample_env_def readSensors_def boot_def exact_arith_def adcToWaterLevel_def
      Let_def round_half_even_def show_nat_def digits.simps digit_char_def)

text \<open>
  C5, for at least one cycle.  Starting without the file, after \<open>N \<ge> 1\<close> cycles in
  each of which the card initialises and the file opens for appending, and in the
  first of which the file opens for the header, the file is the header, ended by
  carriage return and line feed as \<open>println\<close> writes it, followed by the \<open>N\<close> rows of
  the cycles in order, each ended by a line feed.  When every timestamp fits the
  buffer of \<open>strftime\<close>, these are \<open>N + 1\<close> lines: the header (with its carriage return)
  first, then one line per cycle, none of which is the header.
\<close>

theorem header_once_then_rows:
  assumes "es \<noteq> []"
    and "\<forall>e \<in> set es. sd_begin e \<and> open_append e"
    and "open_write (hd es)"
  shows "\<exists>content.
      run_cycles P es None = Some content
    \<and> content = csv_header @ [CR, LF] @ concat (map (\<lambda>e. cycle_row P e @ [LF]) es)
    \<and> ((\<forall>e \<in> set es. clock_ok e) \<longrightarrow>
          spec_lines content = (csv_header @ [CR]) # map (cycle_row P) es
        \<and> length (spec_lines content) = 1 + length es
        \<and> length (filter (\<lambda>l. l = csv_header @ [CR]) (spec_lines content)) = 1)"
proof -
  obtain e es' where es: "es = e # es'" using assms(1) by (cases es) auto
  let ?rows = "concat (map (\<lambda>e. cycle_row P e @ [LF]) es)"
  let ?content = "csv_header @ [CR, LF] @ ?rows"
  have first: "cycle P None e = Some (csv_header @ [CR, LF] @ cycle_row P e @ [LF])"
    using assms(2,3) es by (simp add: cycle_fresh)
  have "run_cycles P es None = run_cycles P es' (cycle P None e)"
    by (simp add: run_cycles_def es)
  also have "\<dots> = Some ((csv_header @ [CR, LF] @ cycle_row P e @ [LF])
                      @ concat (map (\<lambda>e. cycle_row P e @ [LF]) es'))"
    unfolding first using assms(2) es by (intro run_cycles_existing) simp
  finally have run: "run_cycles P es None = Some ?content" by (simp add: es)
  have "spec_lines ?content = (csv_header @ [CR]) # map (cycle_row P) es
      \<and> length (spec_lines ?content) = 1 + length es
      \<and> length (filter (\<lambda>l. l = csv_header @ [CR]) (spec_lines ?content)) = 1"
    if ok: "\<forall>e \<in> set es. clock_ok e"
  proof -
    have hdr: "LF \<notin> set (csv_header @ [CR])" by (simp add: csv_header_def)
    have "?rows = concat (map (\<lambda>r. r @ [LF]) (map (cycle_row P) es))"
      by (simp add: comp_def)
    then have "spec_lines ?rows = map (cycle_row P) es"
      using ok spec_lines_rows [of "map (cycle_row P) es"] cycle_row_free(1) by auto
    then have lines: "spec_lines ?content = (csv_header @ [CR]) # map (cycle_row P) es"
      using spec_lines_line [OF hdr, of ?rows] by simp
    have "filter (\<lambda>l. l = csv_header @ [CR]) (map (cycle_row P) es) = []"
      using ok cycle_row_free(2) by (auto simp: filter_empty_conv)
    then have once: "length (filter (\<lambda>l. l = csv_header @ [CR]) (spec_lines ?content)) = 1"
      unfolding lines by simp
    show ?thesis using lines once by simp
  qed
  with run show ?thesis by blast
qed

theorem header_once_then_rows_witness:
  "\<exists>content.
     run_cycles (exact_arith (- 127)) [sample_env True True None, sample_env True True (Some (at_hour 14))] None
       = Some content
   \<and> spec_lines content =
       [csv_header @ [CR],
        ''1970-01-01T00:00:00+09:00,24.4,90.2,1013.2,-999.0,7.9'',
        ''2026-08-15T14:07:05+09:00,24.4,90.2,1013.2,-999.0,7.9'']"
proof -
  let ?es = "[sample_env True True None, sample_env True True (Some (at_hour 14))]"
  have 1: "?es \<noteq> []" by simp
  have 2: "\<forall>e \<in> set ?es. sd_begin e \<and> open_append e"
    by (simp add: sample_env_def)
  have 3: "open_write (hd ?es)" by (simp add: sample_env_def)
  have 4: "\<forall>e \<in> set ?es. clock_ok e"
    using clock_ok_sample by simp
  have r1: "cycle_row (exact_arith (- 127)) (sample_env True True None)
      = ''1970-01-01T00:00:00+09:00,24.4,90.2,1013.2,-999.0,7.9''"
    by (simp add: cycle_row_def csv_row_def getTimestamp_def sample_env_def readSensors_def boot_def
        exact_arith_def adcToWaterLevel_def Let_def round_half_even_def show_nat_def digits.simps
        digit_char_def)
  have r2: "cycle_row (exact_arith (- 127)) (sample_env True True (Some (at_hour 14)))
      = ''2026-08-15T14:07:05+09:00,24.4,90.2,1013.2,-999.0,7.9''"
    by (simp add: cycle_row_def csv_row_def getTimestamp_def sample_env_def readSensors_def boot_def
        exact_arith_def adcToWaterLevel_def Let_def round_half_even_def show_nat_def digits.simps
        digit_char_def strftime_def at_hour_def show_int_def pad2_def)
  from header_once_then_rows [OF 1 2 3, of "exact_arith (- 127)"] 4
  obtain content where
    "run_cycles (exact_arith (- 127)) ?es None = Some content"
    "spec_lines content = (csv_header @ [CR]) # map (cycle_row (exact_arith (- 127))) ?es"
    by blast
  then show ?thesis by (simp add: r1 r2)
qed






text \<open>
  C8.  When the DS18B20 reports \<open>DEVICE_DISCONNECTED_C\<close>, the water temperature that is
  recorded is \<open>-999\<close>, printed as \<open>-999.0\<close>, and not the reported value; the cycle goes
  on, appends the row with that field when the file opens, and sleeps.
\<close>

theorem probe_disconnect_sentinel:
  assumes "ds_tempC e = Fin (DEVICE_DISCONNECTED_C P)"
  shows "waterTemp (readSensors P e g) = Fin (- 999)
       \<and> fmt1 (waterTemp (readSensors P e g)) = ''-999.0''
       \<and> (DEVICE_DISCONNECTED_C P \<noteq> - 999 \<longrightarrow> waterTemp (readSensors P e g) \<noteq> ds_tempC e)
       \<and> (sd_begin e \<longrightarrow>
            waterTemp (globals (setup_fn P e d)) = Fin (- 999)
          \<and> asleep (setup_fn P e d)
          \<and> (open_append e \<longrightarrow>
               (\<exists>old ts a h p wl. card (setup_fn P e d) =
                  Some (old @ ts @ '','' @ a @ '','' @ h @ '','' @ p @ '','' @ ''-999.0'' @ '','' @ wl @ [LF]))))"
proof -
  have wt: "waterTemp (readSensors P e g) = Fin (- 999)" for g
    using assms by (simp add: readSensors_def Let_def)
  have f: "fmt1 (Fin (- 999)) = ''-999.0''"
    by (simp add: round_half_even_def Let_def show_nat_def digits.simps digit_char_def)
  have g: "globals (setup_fn P e d) = readSensors P e (globals d)" if "sd_begin e"
    using that by (simp add: setup_fn_def goToSleep_def Let_def)
  have c: "\<exists>old. card (setup_fn P e d) = Some (old @ csv_row (getTimestamp e) (readSensors P e (globals d)) @ [LF])"
    if "sd_begin e" "open_append e"
    using that by (simp add: setup_fn_def goToSleep_def Let_def writeCSV_def split: option.splits)
  have "\<exists>old ts a h p wl. card (setup_fn P e d) =
                  Some (old @ ts @ '','' @ a @ '','' @ h @ '','' @ p @ '','' @ ''-999.0'' @ '','' @ wl @ [LF])"
    if "sd_begin e" "open_append e"
  proof -
    from c [OF that] obtain old where
      "card (setup_fn P e d) = Some (old @ csv_row (getTimestamp e) (readSensors P e (globals d)) @ [LF])" ..
    then have "card (setup_fn P e d) = Some (old @ getTimestamp e @ '','' @ fmt1 (airTemp (readSensors P e (globals d)))
        @ '','' @ fmt1 (humidity (readSensors P e (globals d))) @ '','' @ fmt1 (pressure (readSensors P e (globals d)))
        @ '','' @ ''-999.0'' @ '','' @ fmt1 (waterLevel (readSensors P e (globals d))) @ [LF])"
      by (simp add: csv_row_def wt f del: fmt1.simps)
    then show ?thesis by blast
  qed
  moreover have "asleep (setup_fn P e d)"
    by (simp add: setup_fn_def goToSleep_def Let_def)
  ultimately show ?thesis using wt [of g] wt [of "globals d"] f g assms by (auto simp del: fmt1.simps)
qed

theorem probe_disconnect_sentinel_witness:
  "waterTemp (readSensors (exact_arith (- 127)) (sample_env True True None) (globals (boot None))) = Fin (- 999)
   \<and> waterTemp (globals (setup_fn (exact_arith (- 127)) (sample_env True True None) (boot None))) = Fin (- 999)"
  using probe_disconnect_sentinel [of "sample_env True True None" "exact_arith (- 127)" "globals (boot None)" "boot None"]
  by (simp add: sample_env_def exact_arith_def)

text \<open>
  C9.  The row that \<open>writeCSV\<close> appends is one line; read back as six comma-separated
  columns it gives the timestamp and, for each of the five numbers, the value rounded
  to one decimal place (at most a twentieth away), or nothing when the value is not
  finite.
\<close>

theorem csv_row_round_trip:
  assumes "open_append e" and "clock_ok e"
  shows "writeCSV e g c =
           Some ((case c of None \<Rightarrow> [] | Some old \<Rightarrow> old) @ csv_row (getTimestamp e) g @ [LF])
       \<and> LF \<notin> set (csv_row (getTimestamp e) g)
       \<and> spec_parse_row (csv_row (getTimestamp e) g) =
           Some (getTimestamp e,
                 map (\<lambda>v. map_option spec_round1 (cf_val v))
                   [airTemp g, humidity g, pressure g, waterTemp g, waterLevel g])
       \<and> (\<forall>x. \<bar>spec_round1 x - x\<bar> \<le> 1 / 20)"
proof -
  have w: "writeCSV e g c =
           Some ((case c of None \<Rightarrow> [] | Some old \<Rightarrow> old) @ csv_row (getTimestamp e) g @ [LF])"
    using assms(1) by (simp add: writeCSV_def)
  have l: "LF \<notin> set (csv_row (getTimestamp e) g)"
    using assms(2) by (simp add: csv_row_no_LF getTimestamp_free)
  have p: "spec_parse_row (csv_row (getTimestamp e) g) =
           Some (getTimestamp e,
                 map (\<lambda>v. map_option spec_round1 (cf_val v))
                   [airTemp g, humidity g, pressure g, waterTemp g, waterLevel g])"
    using assms(2) by (simp add: spec_parse_row_def split_csv_row getTimestamp_free parse_fmt1)
  show ?thesis using w l p spec_round1_near by blast
qed

theorem csv_row_round_trip_witness:
  "spec_parse_row (csv_row (getTimestamp (sample_env True True None)) (reading (Fin 24.35) NaN))
     = Some (''1970-01-01T00:00:00+09:00'', [Some 24.4, None, Some 1013.2, Some 22.5, Some 5])"
  using csv_row_round_trip [of "sample_env True True None" "reading (Fin 24.35) NaN" None]
    clock_ok_sample(1) [of True True]
  by (simp add: sample_env_def reading_def getTimestamp_def spec_round1_def round_half_even_def)

text \<open>
  C10.  Outside the night window an air temperature of exactly 20 or exactly 28 with
  a humidity above 85 gives the high-risk interval; a humidity of exactly 85 gives the
  normal interval.
\<close>

theorem band_inclusive_threshold_strict:
  assumes "5 \<le> tm_hour t" and "tm_hour t < 22"
  shows "((airTemp g = Fin 20 \<or> airTemp g = Fin 28) \<and> humidity g = Fin h \<and> 85 < h
            \<longrightarrow> calcSleepInterval (Some t) g = INTERVAL_HIGH_RISK)
       \<and> (humidity g = Fin 85 \<longrightarrow> calcSleepInterval (Some t) g = INTERVAL_NORMAL)"
  using assms by (auto simp: calcSleepInterval_def blast_defs)

theorem band_inclusive_threshold_strict_witness:
  "calcSleepInterval (Some (at_hour 14)) (reading (Fin 20) (Fin 85.5)) = 600 \<and>
   calcSleepInterval (Some (at_hour 14)) (reading (Fin 28) (Fin 85.5)) = 600 \<and>
   calcSleepInterval (Some (at_hour 14)) (reading (Fin 24) (Fin 85)) = 1800"
  using band_inclusive_threshold_strict [of "at_hour 14" "reading (Fin 20) (Fin 85.5)" "85.5"]
    band_inclusive_threshold_strict [of "at_hour 14" "reading (Fin 28) (Fin 85.5)" "85.5"]
    band_inclusive_threshold_strict [of "at_hour 14" "reading (Fin 24) (Fin 85)" "85"]
  by (simp add: at_hour_def reading_def interval_defs)

end
